theory Spec2Isabelle
  imports Main
begin

section \<open>Exceptions and access levels\<close>

text \<open>
  The second positional argument of \<open>RestException\<close> is its \<open>code\<close> (400 when
  left out). \<open>getUserApplets\<close> passes the string \<open>'role'\<close> there, so the code is either
  a number or a string.
\<close>

datatype code = IntCode nat | StrCode string

datatype exn =
    RestException string code
  | AccessException string
  | ValidationException string
  | KeyError string
  | TypeError
  | AttributeError
  | ValueError
  | OtherError string

text \<open>The exception types of \<open>girder.exceptions\<close>, which the framework answers with 400, 401 or 403.\<close>

fun framework_exn :: "exn \<Rightarrow> bool" where
  "framework_exn (RestException m c) = True"
| "framework_exn (AccessException m) = True"
| "framework_exn (ValidationException m) = True"
| "framework_exn e = False"



datatype AccessType = NONE | READ | WRITE | ADMIN

datatype oid = ObjectId string

fun str_oid :: "oid \<Rightarrow> string" where
  "str_oid (ObjectId h) = h"

section \<open>The mongo\_search plugin\<close>













section \<open>Documents of the user resource\<close>

text \<open>
  \<open>girder/api/v1/user.py\<close>. A user document is a dict; its keys are fields here, and a
  key that the handlers treat as optional (\<open>'otp' in user\<close>, \<open>user.get('status', ...)\<close>,
  \<open>user.get('groups', [])\<close>) is an option. \<open>salt\<close> holds the password hash and is
  \<open>None\<close> for a user without a password. Times are microseconds, the resolution of
  \<open>datetime\<close>, so \<open>(a - b).total_seconds() <= 0\<close> is \<open>a - b \<le> 0\<close>.
\<close>

datatype TokenScope =
    USER_AUTH
  | TEMPORARY_USER_AUTH
  | EMAIL_VERIFICATION
  | USER_INFO_READ
  | DATA_READ
  | DATA_OWN

record otp_config =
  enabled :: bool
  totp :: string

record user =
  u_id :: oid
  u_login :: string
  u_email :: string
  u_firstName :: string
  u_lastName :: string
  u_salt :: "string option"
  u_admin :: bool
  u_status :: "string option"
  u_otp :: "otp_config option"
  u_groups :: "oid list option"
  u_created :: int
  u_authToken :: "(string \<times> int) option"
  u_emailVerified :: bool

record token =
  token_id :: string
  userId :: "oid option"
  expires :: int
  scope :: "TokenScope list"

record group =
  g_id :: oid
  g_name :: string
  g_public :: bool
  g_creatorId :: oid
  g_access :: "(oid \<times> AccessType) list"

record mail =
  mail_to :: string
  mail_subject :: string
  mail_text :: string

text \<open>
  What the handlers act on: the collections of the document store, the mail that was
  sent and the authentication cookie that was set on the response.
\<close>

record store =
  users :: "user list"
  tokens :: "token list"
  groups :: "group list"
  outbox :: "mail list"
  cookie :: "string option"

text \<open>
  The request and the collaborators that are not part of this module: the current user
  of the request and its headers, the clock, the generator of token ids, settings, the
  access check of the token model, the password hashing context, the validation that
  \<open>save\<close> runs, the filter of the user model, the mail utilities, the one-time
  password generator and verifier, the registration policy, \<open>createUser\<close> and
  \<open>canLogin\<close> of the user model, the generator of group ids, the setting that
  enables the login with a password, the token of the request, the decoder of the
  Authorization header (\<open>None\<close> when \<open>b64decode\<close> or \<open>decode\<close> raises), and
  \<open>authenticate\<close> of the user model.
\<close>

record env =
  getCurrentUser :: "user option"
  headers :: "string \<rightharpoonup> string"
  utcnow :: int
  genToken :: "nat \<Rightarrow> string"
  COOKIE_LIFETIME :: int
  Token_hasAccess :: "token \<Rightarrow> user \<Rightarrow> AccessType \<Rightarrow> bool"
  cryptContext_verify :: "string \<Rightarrow> string \<Rightarrow> bool"
  cryptContext_hash :: "string \<Rightarrow> string"
  password_regex_match :: "string \<Rightarrow> bool"
  User_validate :: "user \<Rightarrow> exn + user"
  User_filter :: "user \<Rightarrow> user \<Rightarrow> user"
  getEmailUrlPrefix :: string
  renderTemplate :: "string \<Rightarrow> (string \<times> string) list \<Rightarrow> string"
  BRAND_NAME :: string
  TOTP_new :: string
  TOTP_to_uri :: "string \<Rightarrow> string \<Rightarrow> string"
  User_verifyOtp :: "user \<Rightarrow> string \<Rightarrow> exn option"
  REGISTRATION_POLICY :: string
  User_createUser ::
    "store \<Rightarrow> string \<Rightarrow> string \<Rightarrow> string \<Rightarrow> string \<Rightarrow> string \<Rightarrow> bool \<Rightarrow> user option \<Rightarrow>
     exn + (user \<times> store)"
  User_canLogin :: "user \<Rightarrow> bool"
  new_group_id :: "nat \<Rightarrow> oid"
  ENABLE_PASSWORD_LOGIN :: bool
  getCurrentToken :: "token option"
  b64decode_utf8 :: "string \<Rightarrow> string option"
  User_authenticate :: "store \<Rightarrow> string \<Rightarrow> string \<Rightarrow> string option \<Rightarrow> exn + user"

record authToken =
  at_token :: string
  at_expires :: int
  at_scope :: "TokenScope list option"
  at_temporary :: "bool option"

datatype response =
    Message string
  | UserAuthToken user authToken string
  | UserMessage user string
  | UserDoc user
  | OtpUris "string list"
  | NoBody

text \<open>\<open>str.lower\<close>, on ASCII letters.\<close>

definition lower_char :: "char \<Rightarrow> char" where
  "lower_char c =
     (let n = (of_char c :: nat) in if 65 \<le> n \<and> n \<le> 90 then char_of (n + 32) else c)"

definition lower :: "string \<Rightarrow> string" where
  "lower s = map lower_char s"

definition day :: int where
  "day = 86400000000"

subsection \<open>The token model\<close>

text \<open>
  Modelled from the spec: the token model (\<open>girder.models.token\<close>) is not among the sources at hand.
  A token has an identifier, an owning user id, an expiry timestamp and a scope set.
  \<open>createToken\<close> stores a new token that expires \<open>days\<close> days from now; \<open>load\<close> looks a
  token up by its identifier, either unchecked and answering \<open>None\<close> when there is none
  (\<open>force=True, exc=False\<close>) or raising when there is none or when the given user lacks
  the level on it (\<open>user=..., level=..., exc=True\<close>); \<open>remove\<close> deletes it.
\<close>

definition createToken ::
  "env \<Rightarrow> store \<Rightarrow> user option \<Rightarrow> int \<Rightarrow> TokenScope list \<Rightarrow> token \<times> store" where
  "createToken env st user days sc =
     (let tok = \<lparr>token_id = genToken env (length (tokens st)),
                 userId = map_option u_id user,
                 expires = utcnow env + days * day,
                 scope = sc\<rparr>
      in (tok, st\<lparr>tokens := tokens st @ [tok]\<rparr>))"

definition Token_load_force :: "store \<Rightarrow> string \<Rightarrow> token option" where
  "Token_load_force st tid = find (\<lambda>t. token_id t = tid) (tokens st)"


definition hasScope :: "token \<Rightarrow> TokenScope \<Rightarrow> bool" where
  "hasScope tok sc = (sc \<in> set (scope tok))"

definition Token_remove :: "store \<Rightarrow> token \<Rightarrow> store" where
  "Token_remove st tok = st\<lparr>tokens := filter (\<lambda>t. token_id t \<noteq> token_id tok) (tokens st)\<rparr>"

text \<open>
  Modelled from the spec: \<open>sendAuthTokenCookie\<close> of the resource base class is not
  among the sources at hand. It creates a token for the user with the default scope and the configured
  cookie lifetime, sets it as the cookie and returns it.
\<close>

definition sendAuthTokenCookie :: "env \<Rightarrow> store \<Rightarrow> user \<Rightarrow> token \<times> store" where
  "sendAuthTokenCookie env st user =
     (let (tok, st') = createToken env st (Some user) (COOKIE_LIFETIME env) [USER_AUTH]
      in (tok, st'\<lparr>cookie := Some (token_id tok)\<rparr>))"

subsection \<open>The user model and the mail utilities\<close>


definition User_save :: "env \<Rightarrow> store \<Rightarrow> user \<Rightarrow> (exn + user) \<times> store" where
  "User_save env st user =
     (case User_validate env user of
        Inl e \<Rightarrow> (Inl e, st)
      | Inr doc \<Rightarrow>
          (Inr doc,
           st\<lparr>users := (if \<exists>u \<in> set (users st). u_id u = u_id doc
                         then map (\<lambda>u. if u_id u = u_id doc then doc else u) (users st)
                         else users st @ [doc])\<rparr>))"

definition hasPassword :: "user \<Rightarrow> bool" where
  "hasPassword user = (u_salt user \<noteq> None)"

definition setPassword :: "env \<Rightarrow> store \<Rightarrow> user \<Rightarrow> string \<Rightarrow> (exn + user) \<times> store" where
  "setPassword env st user password =
     (if \<not> password_regex_match env password
      then (Inl (ValidationException ''password''), st)
      else User_save env st (user\<lparr>u_salt := Some (cryptContext_hash env password)\<rparr>))"


subsection \<open>Access decorators\<close>

text \<open>
  \<open>@access.user\<close> runs the handler for a logged-in caller only. The handlers below
  that carry it take the caller from \<open>getCurrentUser\<close>.
\<close>

definition access_user :: "env \<Rightarrow> store \<Rightarrow> (user \<Rightarrow> (exn + 'a) \<times> store) \<Rightarrow> (exn + 'a) \<times> store" where
  "access_user env st handler =
     (case getCurrentUser env of
        None \<Rightarrow> (Inl (AccessException ''You must be logged in.''), st)
      | Some caller \<Rightarrow> handler caller)"

section \<open>The temporary password flow\<close>



definition changePassword :: "env \<Rightarrow> store \<Rightarrow> string \<Rightarrow> string \<Rightarrow> (exn + response) \<times> store" where
  "changePassword env st old new =
     access_user env st (\<lambda>user.
       if old = [] then (Inl (RestException ''Old password must not be empty.'' (IntCode 400)), st)
       else
         (let check =
            (if \<not> hasPassword user \<or>
                \<not> (case u_salt user of None \<Rightarrow> False | Some h \<Rightarrow> cryptContext_verify env old h)
             then
               (case Token_load_force st old of
                  None \<Rightarrow> Inl (AccessException ''Old password is incorrect.'')
                | Some tok \<Rightarrow>
                    if userId tok = None \<or> userId tok \<noteq> Some (u_id user) \<or>
                       \<not> hasScope tok TEMPORARY_USER_AUTH
                    then Inl (AccessException ''Old password is incorrect.'')
                    else Inr (Some tok))
             else Inr None)
          in case check of
               Inl e \<Rightarrow> (Inl e, st)
             | Inr token \<Rightarrow>
                 (case setPassword env st user new of
                    (Inl e, st1) \<Rightarrow> (Inl e, st1)
                  | (Inr saved, st1) \<Rightarrow>
                      (Inr (Message ''Password changed.''),
                       (case token of None \<Rightarrow> st1 | Some tok \<Rightarrow> Token_remove st1 tok)))))"

section \<open>Logging in and verifying an email address\<close>







section \<open>Updating a user\<close>



section \<open>One-time passwords\<close>

text \<open>
  Modelled from the spec: \<open>hasOtpEnabled\<close> and \<open>initializeOtp\<close> of the user model are
  not among the sources at hand. The OTP configuration of a user is optional; OTP is enabled when the
  configuration is there and its \<open>enabled\<close> flag is set. Initializing stores a fresh
  configuration that is not enabled and answers its URI.
\<close>

definition hasOtpEnabled :: "user \<Rightarrow> bool" where
  "hasOtpEnabled user = (case u_otp user of None \<Rightarrow> False | Some c \<Rightarrow> enabled c)"

definition User_initializeOtp :: "env \<Rightarrow> user \<Rightarrow> string list \<times> user" where
  "User_initializeOtp env user =
     ([TOTP_to_uri env (TOTP_new env) (u_login user)],
      user\<lparr>u_otp := Some \<lparr>enabled = False, totp = TOTP_new env\<rparr>\<rparr>)"

definition initializeOtp :: "env \<Rightarrow> store \<Rightarrow> user \<Rightarrow> (exn + response) \<times> store" where
  "initializeOtp env st user =
     access_user env st (\<lambda>caller.
       if hasOtpEnabled user
       then (Inl (RestException ''The user has already enabled one-time passwords.''
                    (IntCode 400)), st)
       else
         (let (otpUris, user1) = User_initializeOtp env user in
          case User_save env st user1 of
            (Inl e, st1) \<Rightarrow> (Inl e, st1)
          | (Inr doc, st1) \<Rightarrow> (Inr (OtpUris otpUris), st1)))"

definition finalizeOtp :: "env \<Rightarrow> store \<Rightarrow> user \<Rightarrow> (exn + response) \<times> store" where
  "finalizeOtp env st user =
     access_user env st (\<lambda>caller.
       case (case headers env ''Girder-OTP'' of
               None \<Rightarrow> None
             | Some t \<Rightarrow> if t = [] then None else Some t) of
         None \<Rightarrow> (Inl (RestException ''The \"Girder-OTP\" header must be provided.''
                          (IntCode 400)), st)
       | Some otpToken \<Rightarrow>
           (case u_otp user of
              None \<Rightarrow> (Inl (RestException ''The user has not initialized one-time passwords.''
                               (IntCode 400)), st)
            | Some c \<Rightarrow>
                if hasOtpEnabled user
                then (Inl (RestException ''The user has already enabled one-time passwords.''
                             (IntCode 400)), st)
                else
                  (let user1 = user\<lparr>u_otp := Some (c\<lparr>enabled := True\<rparr>)\<rparr> in
                   case User_verifyOtp env user1 otpToken of
                     Some e \<Rightarrow> (Inl e, st)
                   | None \<Rightarrow>
                       (case User_save env st user1 of
                          (Inl e, st1) \<Rightarrow> (Inl e, st1)
                        | (Inr doc, st1) \<Rightarrow> (Inr NoBody, st1)))))"

definition removeOtp :: "env \<Rightarrow> store \<Rightarrow> user \<Rightarrow> (exn + response) \<times> store" where
  "removeOtp env st user =
     access_user env st (\<lambda>caller.
       if \<not> hasOtpEnabled user
       then (Inl (RestException ''The user has not enabled one-time passwords.''
                    (IntCode 400)), st)
       else
         (case u_otp user of
            None \<Rightarrow> (Inl (KeyError ''otp''), st)
          | Some c \<Rightarrow>
              (case User_save env st (user\<lparr>u_otp := None\<rparr>) of
                 (Inl e, st1) \<Rightarrow> (Inl e, st1)
               | (Inr doc, st1) \<Rightarrow> (Inr NoBody, st1))))"

section \<open>Creating a user\<close>

text \<open>
  Modelled from the spec: the group model (\<open>girder.models.group\<close>) is not among the sources at hand.
  A group is a named collection of users with access levels. \<open>findOne\<close> answers the first
  stored group of a name; \<open>createGroup\<close> stores a new group of its creator, who gets
  the level ADMIN on it; \<open>addUser\<close> gives the user the level on the group, adds the group
  to the user's groups and stores both. \<open>findOne\<close> of the user model with the query
  \<open>admin = True\<close> and the sort \<open>created\<close> ascending answers the administrator created
  first, the first stored one among equals.
\<close>

definition Group_findOne_name :: "store \<Rightarrow> string \<Rightarrow> group option" where
  "Group_findOne_name st name = find (\<lambda>g. g_name g = name) (groups st)"

fun earliest_created :: "user \<Rightarrow> user list \<Rightarrow> user" where
  "earliest_created m [] = m"
| "earliest_created m (u # us) = earliest_created (if u_created u < u_created m then u else m) us"

definition User_findOne_admin :: "store \<Rightarrow> user option" where
  "User_findOne_admin st =
     (case filter u_admin (users st) of
        [] \<Rightarrow> None
      | a # as \<Rightarrow> Some (earliest_created a as))"

definition createGroup ::
  "env \<Rightarrow> store \<Rightarrow> string \<Rightarrow> user option \<Rightarrow> bool \<Rightarrow> (exn + group) \<times> store" where
  "createGroup env st name creator public =
     (case creator of
        None \<Rightarrow> (Inl TypeError, st)
      | Some c \<Rightarrow>
          (let g = \<lparr>g_id = new_group_id env (length (groups st)), g_name = name,
                    g_public = public, g_creatorId = u_id c, g_access = [(u_id c, ADMIN)]\<rparr>
           in (Inr g, st\<lparr>groups := groups st @ [g]\<rparr>)))"

definition Group_addUser :: "store \<Rightarrow> group \<Rightarrow> user \<Rightarrow> AccessType \<Rightarrow> (group \<times> user) \<times> store" where
  "Group_addUser st grp user level =
     (let gs = (case u_groups user of None \<Rightarrow> [] | Some l \<Rightarrow> l);
          user1 = user\<lparr>u_groups := Some (if g_id grp \<in> set gs then gs else gs @ [g_id grp])\<rparr>;
          grp1 = grp\<lparr>g_access :=
                   filter (\<lambda>(i, l). i \<noteq> u_id user) (g_access grp) @ [(u_id user, level)]\<rparr>
      in ((grp1, user1),
          st\<lparr>users := map (\<lambda>u. if u_id u = u_id user1 then user1 else u) (users st),
             groups := map (\<lambda>g. if g_id g = g_id grp1 then grp1 else g) (groups st)\<rparr>))"

definition createUser ::
  "env \<Rightarrow> store \<Rightarrow> string \<Rightarrow> string \<Rightarrow> string option \<Rightarrow> string \<Rightarrow> string \<Rightarrow> bool \<Rightarrow>
   (exn + response) \<times> store" where
  "createUser env st login email firstName lastName password admin =
     (let currentUser = getCurrentUser env;
          regPolicy = REGISTRATION_POLICY env
      in
      case (if (case currentUser of None \<Rightarrow> True | Some cu \<Rightarrow> \<not> u_admin cu)
            then
              if regPolicy = ''closed''
              then Inl (RestException
                     (''Registration on this instance is closed. Contact an '' @
                      ''administrator to create an account for you.'') (IntCode 400))
              else Inr False
            else Inr admin) of
        Inl e \<Rightarrow> (Inl e, st)
      | Inr admin1 \<Rightarrow>
      (case User_createUser env st login password email
              (case firstName of None \<Rightarrow> [] | Some f \<Rightarrow> f) lastName admin1 currentUser of
         Inl e \<Rightarrow> (Inl e, st)
       | Inr (user, st1) \<Rightarrow>
      (let (user1, st2) =
             (if currentUser = None \<and> User_canLogin env user
              then
                (let (tok, st') = sendAuthTokenCookie env st1 user
                 in (user\<lparr>u_authToken := Some (token_id tok, expires tok)\<rparr>, st'))
              else (user, st1))
       in
       case (case Group_findOne_name st2 ''New Users'' of
               Some g \<Rightarrow> (Inr g, st2)
             | None \<Rightarrow> createGroup env st2 ''New Users'' (User_findOne_admin st2) False) of
         (Inl e, st3) \<Rightarrow> (Inl e, st3)
       | (Inr newUserGroup, st3) \<Rightarrow>
           (let ((grp, user2), st4) = Group_addUser st3 newUserGroup user1 READ
            in (Inr (UserDoc user2), st4)))))"

section \<open>Aggregating the applets of a user\<close>

subsection \<open>Documents as Python values\<close>

text \<open>
  The folders, collections and applets that \<open>getUserApplets\<close> walks are free-form
  documents: the handler asks whether a key is there before it reads it, and any value may
  stand where it expects a dict or a list. They are modelled as values with the Python
  operations the handler uses on them, each with the exception Python raises on a value
  of the wrong kind. A dict is a list of entries in insertion order. Floats are left out.
\<close>

datatype json =
    JNone
  | JBool bool
  | JInt int
  | JStr string
  | JOid oid
  | JList "json list"
  | JDict "(string \<times> json) list"

definition bind_exn :: "exn + 'a \<Rightarrow> ('a \<Rightarrow> exn + 'b) \<Rightarrow> exn + 'b" where
  "bind_exn m f = (case m of Inl e \<Rightarrow> Inl e | Inr x \<Rightarrow> f x)"

text \<open>\<open>a and b\<close> on conditions that may raise: \<open>b\<close> is evaluated only when \<open>a\<close> holds.\<close>

definition and_exn :: "exn + bool \<Rightarrow> exn + bool \<Rightarrow> exn + bool" where
  "and_exn a b = (case a of Inl e \<Rightarrow> Inl e | Inr c \<Rightarrow> if c then b else Inr False)"

fun startswith :: "string \<Rightarrow> string \<Rightarrow> bool" where
  "startswith s [] = True"
| "startswith [] (k # ks) = False"
| "startswith (c # s) (k # ks) = (c = k \<and> startswith s ks)"

fun is_substring :: "string \<Rightarrow> string \<Rightarrow> bool" where
  "is_substring k [] = (k = [])"
| "is_substring k (c # s) = (startswith (c # s) k \<or> is_substring k s)"

text \<open>\<open>k in v\<close> for a string \<open>k\<close>.\<close>

fun py_in :: "string \<Rightarrow> json \<Rightarrow> exn + bool" where
  "py_in k (JDict kvs) = Inr (k \<in> set (map fst kvs))"
| "py_in k (JList xs) = Inr (JStr k \<in> set xs)"
| "py_in k (JStr s) = Inr (is_substring k s)"
| "py_in k v = Inl TypeError"

text \<open>\<open>v[k]\<close> for a string \<open>k\<close>.\<close>

fun py_getitem :: "json \<Rightarrow> string \<Rightarrow> exn + json" where
  "py_getitem (JDict kvs) k = (case map_of kvs k of None \<Rightarrow> Inl (KeyError k) | Some v \<Rightarrow> Inr v)"
| "py_getitem v k = Inl TypeError"

text \<open>\<open>v.get(k, d)\<close>.\<close>

fun py_get :: "json \<Rightarrow> string \<Rightarrow> json \<Rightarrow> exn + json" where
  "py_get (JDict kvs) k d = Inr (case map_of kvs k of None \<Rightarrow> d | Some v \<Rightarrow> v)"
| "py_get v k d = Inl AttributeError"

text \<open>The elements that \<open>for x in v\<close>, \<open>list(v)\<close> and \<open>set(v)\<close> run over.\<close>

fun py_iter :: "json \<Rightarrow> exn + json list" where
  "py_iter (JList xs) = Inr xs"
| "py_iter (JDict kvs) = Inr (map (\<lambda>kv. JStr (fst kv)) kvs)"
| "py_iter (JStr s) = Inr (map (\<lambda>c. JStr [c]) s)"
| "py_iter v = Inl TypeError"

fun hashable :: "json \<Rightarrow> bool" where
  "hashable (JList xs) = False"
| "hashable (JDict kvs) = False"
| "hashable v = True"

fun truthy :: "json \<Rightarrow> bool" where
  "truthy JNone = False"
| "truthy (JBool b) = b"
| "truthy (JInt i) = (i \<noteq> 0)"
| "truthy (JStr s) = (s \<noteq> [])"
| "truthy (JOid i) = True"
| "truthy (JList xs) = (xs \<noteq> [])"
| "truthy (JDict kvs) = (kvs \<noteq> [])"

fun is_dict :: "json \<Rightarrow> bool" where
  "is_dict (JDict kvs) = True"
| "is_dict v = False"

text \<open>
  A value as a dict key: a list or a dict cannot be hashed, and \<open>True\<close> and \<open>False\<close>
  are the same keys as \<open>1\<close> and \<open>0\<close>.
\<close>

fun dict_key :: "json \<Rightarrow> exn + json" where
  "dict_key (JList xs) = Inl TypeError"
| "dict_key (JDict kvs) = Inl TypeError"
| "dict_key (JBool b) = Inr (JInt (if b then 1 else 0))"
| "dict_key v = Inr v"

text \<open>\<open>d[k] = v\<close> on a dict in insertion order: a key that is there keeps its place.\<close>

fun dict_put :: "(json \<times> json) list \<Rightarrow> json \<Rightarrow> json \<Rightarrow> (json \<times> json) list" where
  "dict_put [] k v = [(k, v)]"
| "dict_put ((k', v') # d) k v = (if k' = k then (k, v) # d else (k', v') # dict_put d k v)"

subsection \<open>The collaborators\<close>

text \<open>
  The models and \<open>jsonld_expander\<close> are not part of this module. \<open>AppletModel().find\<close>
  is called with one shape of query only, which a role and a group id determine;
  \<open>CollectionModel().find\<close> with a name; \<open>FolderModel().find\<close> with a parent id, a
  base parent type and a name. \<open>USER_ROLES\<close> stands for the keys of the constant.
\<close>

record applet_env =
  USER_ROLES :: "string list"
  AppletModel_find :: "string \<Rightarrow> oid \<Rightarrow> json list"
  AppletModel_load :: "json \<Rightarrow> AccessType \<Rightarrow> user option \<Rightarrow> exn + json"
  CollectionModel_find :: "string \<Rightarrow> json list"
  FolderModel_find :: "json \<Rightarrow> string \<Rightarrow> string \<Rightarrow> json list"
  FolderModel_load :: "json \<Rightarrow> AccessType \<Rightarrow> user option \<Rightarrow> bool \<Rightarrow> exn + json"
  childFolders :: "string \<Rightarrow> json \<Rightarrow> user option \<Rightarrow> bool \<Rightarrow> exn + json list"
  formatLdObject :: "json \<Rightarrow> string \<Rightarrow> user option \<Rightarrow> bool \<Rightarrow> exn + json"

datatype applets_body =
    Applets "json list"
  | ReturnedException exn

subsection \<open>The handler\<close>

text \<open>A user document holds at least its \<open>_id\<close>, so as a dict it is never empty.\<close>

definition user_truthy :: "user \<Rightarrow> bool" where
  "user_truthy user = True"

text \<open>
  The condition on a child folder in the comprehension that collects user ids, and the
  comprehension itself: condition and element are evaluated folder by folder.
\<close>

definition is_userid_folder :: "json \<Rightarrow> exn + bool" where
  "is_userid_folder userId' =
     and_exn (py_in ''lowerName'' userId')
    (and_exn (bind_exn (py_getitem userId' ''lowerName'') (\<lambda>n. Inr (n = JStr ''userid'')))
    (and_exn (py_in ''meta'' userId')
    (and_exn (bind_exn (py_getitem userId' ''meta'') (py_in ''user''))
             (bind_exn (py_getitem userId' ''meta'') (\<lambda>m.
              bind_exn (py_getitem m ''user'') (py_in ''@id''))))))"

fun userid_list :: "json list \<Rightarrow> exn + json list" where
  "userid_list [] = Inr []"
| "userid_list (userId' # rest) =
     bind_exn (is_userid_folder userId') (\<lambda>keep.
       if keep then
         bind_exn (py_getitem userId' ''meta'') (\<lambda>m.
         bind_exn (py_getitem m ''user'') (\<lambda>u.
         bind_exn (py_getitem u ''@id'') (\<lambda>i.
         bind_exn (userid_list rest) (\<lambda>r. Inr (i # r)))))
       else userid_list rest)"

text \<open>
  \<open>'roles' in assignedUser and bool(len(list(set(roles).intersection(list(roles))))) and
  '@id' in assignedUser\<close>: the set of the roles meets itself unless there are none.
\<close>

definition has_roles :: "json \<Rightarrow> exn + bool" where
  "has_roles assignedUser =
     and_exn (py_in ''roles'' assignedUser)
    (and_exn (bind_exn (py_getitem assignedUser ''roles'') (\<lambda>roles.
              bind_exn (py_iter roles) (\<lambda>rs.
                if list_all hashable rs then Inr (rs \<noteq> []) else Inl TypeError)))
             (py_in ''@id'' assignedUser))"

text \<open>
  \<open>('_id' in user) and str(user['_id']) in [...]\<close>: the user document has its
  \<open>_id\<close>; the list is built from the child folders of the folder that the member
  names.
\<close>

definition is_assigned :: "applet_env \<Rightarrow> user \<Rightarrow> user option \<Rightarrow> json \<Rightarrow> exn + bool" where
  "is_assigned aenv user reviewer assignedUser =
     and_exn (Inr True)
       (bind_exn (py_getitem assignedUser ''@id'') (\<lambda>aid.
        bind_exn (FolderModel_load aenv aid NONE reviewer True) (\<lambda>parent.
        bind_exn (childFolders aenv ''folder'' parent reviewer True) (\<lambda>folders.
        bind_exn (userid_list folders) (\<lambda>ids.
          Inr (JStr (str_oid (u_id user)) \<in> set ids))))))"

definition has_applet :: "json \<Rightarrow> exn + bool" where
  "has_applet assignment =
     and_exn (bind_exn (py_getitem assignment ''meta'') (py_in ''applet''))
             (bind_exn (py_getitem assignment ''meta'') (\<lambda>m.
              bind_exn (py_getitem m ''applet'') (py_in ''@id'')))"

definition applet_deleted :: "json \<Rightarrow> json \<Rightarrow> exn + json" where
  "applet_deleted applet dflt =
     bind_exn (py_get applet ''meta'' (JDict [])) (\<lambda>m.
     bind_exn (py_get m ''applet'' (JDict [])) (\<lambda>a.
       py_get a ''deleted'' dflt))"

text \<open>
  The inner \<open>try\<close>: an AccessException is printed and the loop over the members goes on;
  any other exception leaves the inner \<open>try\<close>. The result is the list of applets and
  what was printed.
\<close>

definition load_assigned_applet ::
  "applet_env \<Rightarrow> user option \<Rightarrow> json \<Rightarrow> json list \<Rightarrow> exn + (json list \<times> exn list)" where
  "load_assigned_applet aenv reviewer assignment applets =
     (case bind_exn (py_getitem assignment ''meta'') (\<lambda>m.
           bind_exn (py_getitem m ''applet'') (\<lambda>a.
           bind_exn (py_getitem a ''@id'') (\<lambda>aid.
           bind_exn (AppletModel_load aenv aid READ reviewer) (\<lambda>appletToAppend.
           bind_exn (applet_deleted appletToAppend (JBool False)) (\<lambda>deleted.
             Inr (if \<not> truthy deleted then applets @ [appletToAppend] else applets)))))) of
        Inl (AccessException m) \<Rightarrow> Inr (applets, [AccessException m])
      | Inl e \<Rightarrow> Inl e
      | Inr applets' \<Rightarrow> Inr (applets', []))"

definition member_step ::
  "applet_env \<Rightarrow> user \<Rightarrow> user option \<Rightarrow> json \<Rightarrow> json list \<Rightarrow> json \<Rightarrow>
   exn + (json list \<times> exn list)" where
  "member_step aenv user reviewer assignment applets assignedUser =
     bind_exn (has_roles assignedUser) (\<lambda>c1.
       if c1 then
         bind_exn (is_assigned aenv user reviewer assignedUser) (\<lambda>c2.
           if c2 then
             bind_exn (has_applet assignment) (\<lambda>c3.
               if c3 then load_assigned_applet aenv reviewer assignment applets
               else Inr (applets, []))
           else Inr (applets, []))
       else Inr (applets, []))"

text \<open>
  The loop over the members of one assignment. An exception ends it; the applets that
  were appended before stay appended.
\<close>

fun members_loop ::
  "applet_env \<Rightarrow> user \<Rightarrow> user option \<Rightarrow> json \<Rightarrow> json list \<Rightarrow> json list \<times> exn list \<Rightarrow>
   exn option \<times> json list \<times> exn list" where
  "members_loop aenv user reviewer assignment [] (applets, printed) = (None, applets, printed)"
| "members_loop aenv user reviewer assignment (assignedUser # rest) (applets, printed) =
     (case member_step aenv user reviewer assignment applets assignedUser of
        Inl e \<Rightarrow> (Some e, applets, printed)
      | Inr (applets', printed') \<Rightarrow>
          members_loop aenv user reviewer assignment rest (applets', printed @ printed'))"

text \<open>
  \<open>'meta' in assignment and 'members' in assignment.get('meta', {}) is not None\<close>: the
  chained comparison tests membership first and then that the dict is not \<open>None\<close>.
\<close>

definition has_members :: "json \<Rightarrow> exn + bool" where
  "has_members assignment =
     and_exn (py_in ''meta'' assignment)
       (bind_exn (py_get assignment ''meta'' (JDict [])) (\<lambda>m.
          and_exn (py_in ''members'' m) (Inr (m \<noteq> JNone))))"

text \<open>The body of the loop over the assignments: the outer \<open>try\<close> with its bare \<open>except\<close>.\<close>

definition assignment_step ::
  "applet_env \<Rightarrow> user \<Rightarrow> user option \<Rightarrow> json list \<times> exn list \<Rightarrow> json \<Rightarrow> json list \<times> exn list" where
  "assignment_step aenv user reviewer state assignment =
     (case bind_exn (has_members assignment) (\<lambda>c.
             if c then
               bind_exn (py_getitem assignment ''meta'') (\<lambda>m.
               bind_exn (py_getitem m ''members'') py_iter)
             else Inr []) of
        Inl e \<Rightarrow> (fst state, snd state @ [e])
      | Inr members \<Rightarrow>
          (case members_loop aenv user reviewer assignment members state of
             (Some e, applets, printed) \<Rightarrow> (applets, printed @ [e])
           | (None, applets, printed) \<Rightarrow> (applets, printed)))"

text \<open>
  \<open>{applet.get('_id'): applet for applet in applets if isinstance(applet, dict)}\<close>,
  entry by entry.
\<close>

fun by_id :: "json list \<Rightarrow> (json \<times> json) list \<Rightarrow> exn + (json \<times> json) list" where
  "by_id [] d = Inr d"
| "by_id (applet # rest) d =
     (if is_dict applet then
        bind_exn (py_get applet ''_id'' JNone) (\<lambda>i.
        bind_exn (dict_key i) (\<lambda>k. by_id rest (dict_put d k applet)))
      else by_id rest d)"

text \<open>\<open>[applet.get('_id') for applet in applets]\<close>.\<close>

fun applet_ids :: "json list \<Rightarrow> exn + json list" where
  "applet_ids [] = Inr []"
| "applet_ids (applet # rest) =
     bind_exn (py_get applet ''_id'' JNone) (\<lambda>i.
     bind_exn (applet_ids rest) (\<lambda>r. Inr (i # r)))"

text \<open>The comprehension in the last \<open>try\<close>.\<close>

fun format_applets :: "applet_env \<Rightarrow> user option \<Rightarrow> json list \<Rightarrow> exn + json list" where
  "format_applets aenv reviewer [] = Inr []"
| "format_applets aenv reviewer (applet # rest) =
     bind_exn (and_exn (Inr (applet \<noteq> JNone))
                (bind_exn (applet_deleted applet JNone) (\<lambda>d. Inr (\<not> truthy d)))) (\<lambda>keep.
       if keep then
         bind_exn (formatLdObject aenv applet ''applet'' reviewer True) (\<lambda>f.
         bind_exn (format_applets aenv reviewer rest) (\<lambda>r. Inr (f # r)))
       else format_applets aenv reviewer rest)"

fun collection_folders :: "applet_env \<Rightarrow> user option \<Rightarrow> json list \<Rightarrow> exn + json list" where
  "collection_folders aenv reviewer [] = Inr []"
| "collection_folders aenv reviewer (collection # rest) =
     bind_exn (childFolders aenv ''collection'' collection reviewer False) (\<lambda>fs.
     bind_exn (collection_folders aenv reviewer rest) (\<lambda>r. Inr (fs @ r)))"

definition getUserApplets ::
  "env \<Rightarrow> applet_env \<Rightarrow> user \<Rightarrow> string \<Rightarrow> bool \<Rightarrow> (exn + applets_body) \<times> exn list" where
  "getUserApplets env aenv user role ids_only =
     (let user1 = (if \<not> user_truthy user then Some user else getCurrentUser env);
          role1 = lower role
      in
      if role1 \<notin> set (USER_ROLES aenv)
      then (Inl (RestException ''Invalid user role.'' (StrCode ''role'')), [])
      else
        (let reviewer = getCurrentUser env in
         case user1 of
           None \<Rightarrow> (Inl AttributeError, [])
         | Some user2 \<Rightarrow>
        (let applets = concat (map (AppletModel_find aenv role1)
                                 (case u_groups user2 of None \<Rightarrow> [] | Some gs \<Rightarrow> gs))
         in
         case collection_folders aenv reviewer (CollectionModel_find aenv ''Assignments'') of
           Inl e \<Rightarrow> (Inl e, [])
         | Inr folders \<Rightarrow>
        (let assignments =
               folders @
               FolderModel_find aenv
                 (case reviewer of None \<Rightarrow> JNone | Some r \<Rightarrow> JOid (u_id r))
                 ''user'' ''Assignments'';
             (applets1, printed) =
               foldl (assignment_step aenv user2 reviewer) (applets, []) assignments
         in
         case by_id applets1 [] of
           Inl e \<Rightarrow> (Inl e, printed)
         | Inr d \<Rightarrow>
        (let applets2 = map snd d in
         if ids_only
         then
           (case applet_ids applets2 of
              Inl e \<Rightarrow> (Inl e, printed)
            | Inr ids \<Rightarrow> (Inr (Applets ids), printed))
         else
           (case format_applets aenv reviewer applets2 of
              Inl e \<Rightarrow> (Inr (ReturnedException e), printed)
            | Inr formatted \<Rightarrow> (Inr (Applets formatted), printed)))))))"

section \<open>Example data\<close>

text \<open>
  Two users, one of them a site administrator, a store that holds them and a temporary
  token of the second, and an environment in which the second user is the caller.
  Passwords of six characters or more are accepted, and a hash is the password after
  \<open>h:\<close>.
\<close>

definition alice :: user where
  "alice =
     \<lparr>u_id = ObjectId ''a1'', u_login = ''alice'', u_email = ''alice@x.org'',
      u_firstName = ''Alice'', u_lastName = ''A'', u_salt = Some ''h:alicepw'',
      u_admin = True, u_status = Some ''enabled'', u_otp = None, u_groups = Some [ObjectId ''g1''],
      u_created = 10, u_authToken = None, u_emailVerified = False\<rparr>"

definition bob :: user where
  "bob =
     \<lparr>u_id = ObjectId ''b2'', u_login = ''bob'', u_email = ''bob@x.org'',
      u_firstName = ''Bob'', u_lastName = ''B'', u_salt = Some ''h:bobpw1'',
      u_admin = False, u_status = Some ''enabled'', u_otp = None, u_groups = Some [ObjectId ''g2''],
      u_created = 20, u_authToken = None, u_emailVerified = False\<rparr>"

definition tmp_token :: token where
  "tmp_token =
     \<lparr>token_id = ''tmp'', userId = Some (ObjectId ''b2''), expires = 5000,
      scope = [TEMPORARY_USER_AUTH]\<rparr>"

definition example_store :: store where
  "example_store =
     \<lparr>users = [alice, bob], tokens = [tmp_token], groups = [], outbox = [], cookie = None\<rparr>"

definition example_env :: env where
  "example_env =
     \<lparr>getCurrentUser = Some bob,
      headers = Map.empty,
      utcnow = 1000,
      genToken = (\<lambda>n. replicate (Suc n) CHR ''t''),
      COOKIE_LIFETIME = 180,
      Token_hasAccess = (\<lambda>t u l. userId t = Some (u_id u) \<or> u_admin u),
      cryptContext_verify = (\<lambda>p h. h = ''h:'' @ p),
      cryptContext_hash = (\<lambda>p. ''h:'' @ p),
      password_regex_match = (\<lambda>p. 6 \<le> length p),
      User_validate = Inr,
      User_filter = (\<lambda>doc u. doc\<lparr>u_salt := None\<rparr>),
      getEmailUrlPrefix = ''http://h/'',
      renderTemplate = (\<lambda>name ps. name),
      BRAND_NAME = ''ML'',
      TOTP_new = ''secret'',
      TOTP_to_uri = (\<lambda>secret label. ''otpauth://'' @ label),
      User_verifyOtp = (\<lambda>u t. if t = ''123456'' then None
                                else Some (AccessException ''One-time password check failed.'')),
      REGISTRATION_POLICY = ''open'',
      User_createUser = (\<lambda>st login password email firstName lastName admin cur.
        if \<exists>u \<in> set (users st). u_login u = login
        then Inl (ValidationException ''That login is already registered.'')
        else
          (let u = \<lparr>u_id = ObjectId login, u_login = login, u_email = email,
                      u_firstName = firstName, u_lastName = lastName,
                      u_salt = Some (''h:'' @ password), u_admin = admin \<or> users st = [],
                      u_status = Some ''enabled'', u_otp = None, u_groups = None,
                      u_created = 30, u_authToken = None, u_emailVerified = False\<rparr>
           in Inr (u, st\<lparr>users := users st @ [u]\<rparr>))),
      User_canLogin = (\<lambda>u. u_status u = Some ''enabled''),
      new_group_id = (\<lambda>n. ObjectId (replicate (Suc n) CHR ''g'')),
      ENABLE_PASSWORD_LOGIN = True,
      getCurrentToken = None,
      b64decode_utf8 = Some,
      User_authenticate = (\<lambda>st login password otp.
        case find (\<lambda>u. u_login u = login \<and> u_salt u = Some (''h:'' @ password)) (users st) of
          None \<Rightarrow> Inl (AccessException ''Login failed.'')
        | Some u \<Rightarrow> Inr u)\<rparr>"

text \<open>
  The second user with one-time passwords initialized but not enabled, and with
  one-time passwords enabled; the environment with the administrator as the caller, and
  with a one-time password in the header.
\<close>

definition bob_otp :: user where
  "bob_otp = bob\<lparr>u_otp := Some \<lparr>enabled = False, totp = ''secret''\<rparr>\<rparr>"

definition bob_on :: user where
  "bob_on = bob\<lparr>u_otp := Some \<lparr>enabled = True, totp = ''secret''\<rparr>\<rparr>"


definition otp_env :: "string \<Rightarrow> env" where
  "otp_env t = example_env\<lparr>headers := [''Girder-OTP'' \<mapsto> t]\<rparr>"

text \<open>
  Documents for \<open>getUserApplets\<close>: an applet for each of the two groups and a third
  one; a collection named "Assignments" with two folders, one whose \<open>meta\<close> is
  \<open>None\<close> and one that assigns the third applet to the members of a folder; that
  folder has a child \<open>userid\<close> naming the second user. In the second environment the
  third applet cannot be formatted.
\<close>

definition applet_a :: json where
  "applet_a = JDict [(''_id'', JStr ''A''), (''name'', JStr ''first'')]"

definition applet_b :: json where
  "applet_b = JDict [(''_id'', JStr ''B''), (''name'', JStr ''second'')]"

definition applet_c :: json where
  "applet_c = JDict [(''_id'', JStr ''C''), (''name'', JStr ''third'')]"

definition broken_assignment :: json where
  "broken_assignment = JDict [(''meta'', JNone)]"

definition assignment_c :: json where
  "assignment_c =
     JDict [(''meta'',
             JDict [(''members'',
                     JList [JDict [(''roles'', JList [JStr ''user'']), (''@id'', JStr ''f1'')]]),
                    (''applet'', JDict [(''@id'', JStr ''C'')])])]"

definition userid_folder :: json where
  "userid_folder =
     JDict [(''lowerName'', JStr ''userid''),
            (''meta'', JDict [(''user'', JDict [(''@id'', JStr ''b2'')])])]"

definition example_applet_env :: applet_env where
  "example_applet_env =
     \<lparr>USER_ROLES = [''user'', ''reviewer''],
      AppletModel_find = (\<lambda>role gid.
        if role = ''user'' \<and> gid = ObjectId ''g1'' then [applet_a]
        else if role = ''user'' \<and> gid = ObjectId ''g2'' then [applet_b]
        else []),
      AppletModel_load = (\<lambda>i level u.
        if i = JStr ''C'' then Inr applet_c else Inl (AccessException ''Read access denied.'')),
      CollectionModel_find = (\<lambda>name.
        if name = ''Assignments'' then [JDict [(''_id'', JStr ''col'')]] else []),
      FolderModel_find = (\<lambda>parentId baseParentType name. []),
      FolderModel_load = (\<lambda>i level u force. Inr (JDict [(''_id'', i)])),
      childFolders = (\<lambda>parentType parent u force.
        if parentType = ''collection'' then Inr [broken_assignment, assignment_c]
        else Inr [userid_folder]),
      formatLdObject = (\<lambda>doc t u dropErrors. Inr doc)\<rparr>"


text \<open>The first environment without the collection, so that no folder assigns an applet.\<close>

definition plain_applet_env :: applet_env where
  "plain_applet_env = example_applet_env\<lparr>CollectionModel_find := (\<lambda>name. [])\<rparr>"

section \<open>Properties of mongoSearch\<close>





section \<open>Properties of the temporary password flow\<close>





text \<open>
  C7, as amended. For a logged-in caller, \<open>changePassword\<close> raises a framework exception
  and leaves the store as it was whenever \<open>old\<close> is empty, or is neither the caller's
  password nor the identifier of a stored token that the caller owns and that carries
  \<open>TEMPORARY_USER_AUTH\<close>. When such a token was given as \<open>old\<close> and the user model
  accepts the new password, the user is saved with the hash of the new password and the
  token is removed from the store.
\<close>

theorem changePassword_old_checked:
  assumes "getCurrentUser env = Some user"
  shows "(old = [] \<or>
          (\<not> (\<exists>h. u_salt user = Some h \<and> cryptContext_verify env old h) \<and>
           \<not> (\<exists>tok. Token_load_force st old = Some tok \<and> userId tok = Some (u_id user) \<and>
                  hasScope tok TEMPORARY_USER_AUTH)) \<longrightarrow>
            (\<exists>e. changePassword env st old new = (Inl e, st) \<and> framework_exn e)) \<and>
         (\<forall>tok doc.
            old \<noteq> [] \<and>
            \<not> (\<exists>h. u_salt user = Some h \<and> cryptContext_verify env old h) \<and>
            Token_load_force st old = Some tok \<and> userId tok = Some (u_id user) \<and>
            hasScope tok TEMPORARY_USER_AUTH \<and>
            password_regex_match env new \<and>
            User_validate env (user\<lparr>u_salt := Some (cryptContext_hash env new)\<rparr>) = Inr doc \<longrightarrow>
              changePassword env st old new =
                (Inr (Message ''Password changed.''),
                 Token_remove
                   (snd (User_save env st (user\<lparr>u_salt := Some (cryptContext_hash env new)\<rparr>)))
                   tok) \<and>
              doc \<in> set (users (snd (changePassword env st old new))) \<and>
              Token_load_force (snd (changePassword env st old new)) old = None)"
proof -
  have removed: "Token_load_force (Token_remove s t) (token_id t) = None" for s t
    by (simp add: Token_load_force_def Token_remove_def find_None_iff)
  have id: "token_id t = tid" if "Token_load_force s tid = Some t" for s t tid
    using that by (auto simp: Token_load_force_def find_Some_iff)
  have saved: "doc \<in> set (users (snd (User_save env s u)))"
    if "User_validate env u = Inr doc" for s u doc
    using that by (auto simp: User_save_def)
  have refuse: "\<exists>e. changePassword env st old new = (Inl e, st) \<and> framework_exn e"
    if "old = [] \<or>
        (\<not> (\<exists>h. u_salt user = Some h \<and> cryptContext_verify env old h) \<and>
         \<not> (\<exists>tok. Token_load_force st old = Some tok \<and> userId tok = Some (u_id user) \<and>
                hasScope tok TEMPORARY_USER_AUTH))"
    using that assms
    by (auto simp: changePassword_def access_user_def hasPassword_def Let_def
             split: option.splits)
  have accept:
    "changePassword env st old new =
       (Inr (Message ''Password changed.''),
        Token_remove
          (snd (User_save env st (user\<lparr>u_salt := Some (cryptContext_hash env new)\<rparr>))) tok)"
    if "old \<noteq> []" "\<not> (\<exists>h. u_salt user = Some h \<and> cryptContext_verify env old h)"
       "Token_load_force st old = Some tok" "userId tok = Some (u_id user)"
       "hasScope tok TEMPORARY_USER_AUTH" "password_regex_match env new"
       "User_validate env (user\<lparr>u_salt := Some (cryptContext_hash env new)\<rparr>) = Inr doc"
    for tok doc
    using that assms
    by (auto simp: changePassword_def access_user_def hasPassword_def Let_def setPassword_def
          User_save_def split: option.splits)
  show ?thesis
  proof (intro conjI allI impI)
    assume "old = [] \<or>
        (\<not> (\<exists>h. u_salt user = Some h \<and> cryptContext_verify env old h) \<and>
         \<not> (\<exists>tok. Token_load_force st old = Some tok \<and> userId tok = Some (u_id user) \<and>
                hasScope tok TEMPORARY_USER_AUTH))"
    then show "\<exists>e. changePassword env st old new = (Inl e, st) \<and> framework_exn e"
      by (rule refuse)
  next
    fix tok doc
    assume h: "old \<noteq> [] \<and>
            \<not> (\<exists>h. u_salt user = Some h \<and> cryptContext_verify env old h) \<and>
            Token_load_force st old = Some tok \<and> userId tok = Some (u_id user) \<and>
            hasScope tok TEMPORARY_USER_AUTH \<and>
            password_regex_match env new \<and>
            User_validate env (user\<lparr>u_salt := Some (cryptContext_hash env new)\<rparr>) = Inr doc"
    then have run: "changePassword env st old new =
       (Inr (Message ''Password changed.''),
        Token_remove
          (snd (User_save env st (user\<lparr>u_salt := Some (cryptContext_hash env new)\<rparr>))) tok)"
      using accept by blast
    show "changePassword env st old new =
       (Inr (Message ''Password changed.''),
        Token_remove
          (snd (User_save env st (user\<lparr>u_salt := Some (cryptContext_hash env new)\<rparr>))) tok)"
      by (rule run)
    show "doc \<in> set (users (snd (changePassword env st old new)))"
      using h saved [of "user\<lparr>u_salt := Some (cryptContext_hash env new)\<rparr>" doc st]
      by (simp add: run Token_remove_def)
    show "Token_load_force (snd (changePassword env st old new)) old = None"
    proof -
      from h have "token_id tok = old" using id [of st old tok] by blast
      with removed [of _ tok] show ?thesis by (simp add: run)
    qed
  qed
qed

theorem changePassword_old_checked_witness:
  "changePassword example_env example_store ''tmp'' ''newpassword'' =
     (Inr (Message ''Password changed.''),
      example_store\<lparr>users := [alice, bob\<lparr>u_salt := Some ''h:newpassword''\<rparr>], tokens := []\<rparr>) \<and>
   changePassword example_env example_store ''wrong'' ''newpassword'' =
     (Inl (AccessException ''Old password is incorrect.''), example_store)"
proof -
  have cur: "getCurrentUser example_env = Some bob"
    by (simp add: example_env_def)
  have pre: "''tmp'' \<noteq> [] \<and>
        \<not> (\<exists>h. u_salt bob = Some h \<and> cryptContext_verify example_env ''tmp'' h) \<and>
        Token_load_force example_store ''tmp'' = Some tmp_token \<and>
        userId tmp_token = Some (u_id bob) \<and>
        hasScope tmp_token TEMPORARY_USER_AUTH \<and>
        password_regex_match example_env ''newpassword'' \<and>
        User_validate example_env
          (bob\<lparr>u_salt := Some (cryptContext_hash example_env ''newpassword'')\<rparr>) =
          Inr (bob\<lparr>u_salt := Some ''h:newpassword''\<rparr>)"
    by (simp add: bob_def example_env_def Token_load_force_def example_store_def
          tmp_token_def hasScope_def)
  have gone: "Token_load_force
                (snd (changePassword example_env example_store ''tmp'' ''newpassword''))
                ''tmp'' = None"
    using changePassword_old_checked [OF cur, of "''tmp''" example_store "''newpassword''"] pre
    by blast
  have run: "changePassword example_env example_store ''tmp'' ''newpassword'' =
     (Inr (Message ''Password changed.''),
      example_store\<lparr>users := [alice, bob\<lparr>u_salt := Some ''h:newpassword''\<rparr>], tokens := []\<rparr>)"
    by code_simp
  have bad: "changePassword example_env example_store ''wrong'' ''newpassword'' =
     (Inl (AccessException ''Old password is incorrect.''), example_store)"
    by code_simp
  from gone run bad show ?thesis by simp
qed

text \<open>
  The claim as stated fails where the user model rejects the new password: the caller
  presents his temporary token, the password \<open>abc\<close> is too short for the example
  environment, and the handler ends with the model's exception, the password hash
  unchanged and the token still stored.
\<close>

theorem changePassword_token_kept_counterexample:
  "getCurrentUser example_env = Some bob \<and>
   Token_load_force example_store ''tmp'' = Some tmp_token \<and>
   userId tmp_token = Some (u_id bob) \<and>
   hasScope tmp_token TEMPORARY_USER_AUTH \<and>
   changePassword example_env example_store ''tmp'' ''abc'' =
     (Inl (ValidationException ''password''), example_store) \<and>
   tmp_token \<in> set (tokens example_store) \<and>
   bob \<in> set (users example_store)"
  by code_simp

section \<open>Properties of createUser\<close>

lemma earliest_created_mem: "earliest_created m us \<in> set (m # us)"
  by (induction us arbitrary: m) auto

lemma earliest_created_mono: "u_created (earliest_created m us) \<le> u_created m"
proof (induction us arbitrary: m)
  case Nil then show ?case by simp
next
  case (Cons x xs)
  show ?case
    using Cons.IH [of "if u_created x < u_created m then x else m"]
    by (auto split: if_splits)
qed

lemma earliest_created_le: "u \<in> set (m # us) \<Longrightarrow> u_created (earliest_created m us) \<le> u_created u"
proof (induction us arbitrary: m)
  case Nil then show ?case by simp
next
  case (Cons x xs)
  show ?case
  proof (cases "u \<in> set xs")
    case True
    then show ?thesis using Cons.IH [of "if u_created x < u_created m then x else m"] by simp
  next
    case False
    with Cons.prems have "u = m \<or> u = x" by auto
    then show ?thesis
      using earliest_created_mono [of "if u_created x < u_created m then x else m" xs]
      by (auto split: if_splits)
  qed
qed

lemma User_findOne_admin_Some:
  assumes "User_findOne_admin st = Some c"
  shows "c \<in> set (users st) \<and> u_admin c \<and>
         (\<forall>a \<in> set (users st). u_admin a \<longrightarrow> u_created c \<le> u_created a)"
proof -
  from assms obtain a as where f: "filter u_admin (users st) = a # as"
    and c: "c = earliest_created a as"
    by (auto simp: User_findOne_admin_def split: list.splits)
  have "c \<in> set (a # as)" unfolding c by (rule earliest_created_mem)
  then have "c \<in> set (filter u_admin (users st))" by (simp add: f)
  moreover have "u_created c \<le> u_created x" if "x \<in> set (users st)" "u_admin x" for x
  proof -
    from that have "x \<in> set (a # as)" by (simp flip: f)
    then show ?thesis unfolding c by (rule earliest_created_le)
  qed
  ultimately show ?thesis by auto
qed

lemma Group_addUser_props:
  assumes "Group_addUser st grp user level = ((g1, u1), st')" and "grp \<in> set (groups st)"
  shows "g1 \<in> set (groups st') \<and> g_name g1 = g_name grp \<and> g_public g1 = g_public grp \<and>
         g_creatorId g1 = g_creatorId grp \<and> (u_id user, level) \<in> set (g_access g1) \<and>
         u_id u1 = u_id user \<and> (\<exists>l. u_groups u1 = Some l \<and> g_id g1 \<in> set l)"
  using assms by (auto simp: Group_addUser_def Let_def image_iff intro!: bexI [of _ grp])


lemma sendAuthTokenCookie_frame:
  "sendAuthTokenCookie env st user = (tok, st') \<Longrightarrow> users st' = users st \<and> groups st' = groups st"
  by (auto simp: sendAuthTokenCookie_def createToken_def Let_def)

lemma createUser_InrE:
  assumes "createUser env st login email firstName lastName password admin = (Inr r, st')"
  obtains created st1 user1 st2 newUserGroup st3 grp user2 where
    "User_createUser env st login password email (case firstName of None \<Rightarrow> [] | Some f \<Rightarrow> f)
       lastName (admin \<and> (case getCurrentUser env of None \<Rightarrow> False | Some cu \<Rightarrow> u_admin cu))
       (getCurrentUser env) = Inr (created, st1)"
    "u_id user1 = u_id created" "users st2 = users st1" "groups st2 = groups st1"
    "(case Group_findOne_name st2 ''New Users'' of
        Some g \<Rightarrow> (Inr g, st2)
      | None \<Rightarrow> createGroup env st2 ''New Users'' (User_findOne_admin st2) False) =
       (Inr newUserGroup, st3)"
    "Group_addUser st3 newUserGroup user1 READ = ((grp, user2), st')"
    "r = UserDoc user2"
proof -
  let ?adm = "admin \<and> (case getCurrentUser env of None \<Rightarrow> False | Some cu \<Rightarrow> u_admin cu)"
  let ?fn = "case firstName of None \<Rightarrow> [] | Some f \<Rightarrow> f"
  from assms obtain created st1 where
    c: "User_createUser env st login password email ?fn lastName ?adm (getCurrentUser env) =
          Inr (created, st1)"
    by (auto simp: createUser_def Let_def split: if_splits sum.splits option.splits prod.splits)
  define p where "p =
    (if getCurrentUser env = None \<and> User_canLogin env created
     then (let (tok, s) = sendAuthTokenCookie env st1 created
           in (created\<lparr>u_authToken := Some (token_id tok, expires tok)\<rparr>, s))
     else (created, st1))"
  obtain user1 st2 where p: "p = (user1, st2)" by (cases p)
  have frame: "u_id user1 = u_id created \<and> users st2 = users st1 \<and> groups st2 = groups st1"
    using p sendAuthTokenCookie_frame [of env st1 created]
    by (auto simp: p_def Let_def split: if_splits prod.splits)
  have run: "createUser env st login email firstName lastName password admin =
     (case (case Group_findOne_name st2 ''New Users'' of
               Some g \<Rightarrow> (Inr g, st2)
             | None \<Rightarrow> createGroup env st2 ''New Users'' (User_findOne_admin st2) False) of
         (Inl e, st3) \<Rightarrow> (Inl e, st3)
       | (Inr newUserGroup, st3) \<Rightarrow>
           (let ((grp, user2), st4) = Group_addUser st3 newUserGroup user1 READ
            in (Inr (UserDoc user2), st4)))"
    using assms c p
    by (auto simp: createUser_def Let_def p_def split: if_splits option.splits)
  obtain rg st3 where g: "(case Group_findOne_name st2 ''New Users'' of
        Some g \<Rightarrow> (Inr g, st2)
      | None \<Rightarrow> createGroup env st2 ''New Users'' (User_findOne_admin st2) False) = (rg, st3)"
    by (cases "(case Group_findOne_name st2 ''New Users'' of
        Some g \<Rightarrow> (Inr g, st2)
      | None \<Rightarrow> createGroup env st2 ''New Users'' (User_findOne_admin st2) False)")
  from assms run g obtain newUserGroup where rg: "rg = Inr newUserGroup"
    by (cases rg) auto
  obtain grp user2 st4 where a: "Group_addUser st3 newUserGroup user1 READ = ((grp, user2), st4)"
    by (metis prod.exhaust)
  from assms run g rg a have "r = UserDoc user2" "st' = st4" by auto
  with that [OF c] frame g rg a show thesis by blast
qed

lemma Group_findOne_name_Some:
  "Group_findOne_name st name = Some g \<Longrightarrow> g \<in> set (groups st) \<and> g_name g = name"
  by (auto simp: Group_findOne_name_def find_Some_iff)

lemma Group_addUser_length:
  "Group_addUser st grp user level = (x, st') \<Longrightarrow> length (groups st') = length (groups st)"
  by (auto simp: Group_addUser_def Let_def)

text \<open>
  C10. When \<open>createUser\<close> returns a user, the store holds a group named "New Users" on
  which that user has the level READ, and the group is among the user's groups. If the
  store had no group of that name after the user model created the user, the group is a
  new one, it is not public, and its creator is an administrator none of the stored
  administrators was created before. If there was one, no group is added and the user
  joins the one found.
\<close>

theorem createUser_new_users_group:
  assumes "createUser env st login email firstName lastName password admin = (Inr r, st')"
  shows "\<exists>user created st1 g.
     r = UserDoc user \<and>
     User_createUser env st login password email (case firstName of None \<Rightarrow> [] | Some f \<Rightarrow> f)
       lastName (admin \<and> (case getCurrentUser env of None \<Rightarrow> False | Some cu \<Rightarrow> u_admin cu))
       (getCurrentUser env) = Inr (created, st1) \<and>
     u_id user = u_id created \<and>
     g \<in> set (groups st') \<and> g_name g = ''New Users'' \<and>
     (u_id user, READ) \<in> set (g_access g) \<and>
     (\<exists>l. u_groups user = Some l \<and> g_id g \<in> set l) \<and>
     (Group_findOne_name st1 ''New Users'' = None \<longrightarrow>
        length (groups st') = Suc (length (groups st1)) \<and> \<not> g_public g \<and>
        (\<exists>creator \<in> set (users st1). u_admin creator \<and> g_creatorId g = u_id creator \<and>
           (\<forall>a \<in> set (users st1). u_admin a \<longrightarrow> u_created creator \<le> u_created a))) \<and>
     (\<forall>g0. Group_findOne_name st1 ''New Users'' = Some g0 \<longrightarrow>
        g_id g = g_id g0 \<and> length (groups st') = length (groups st1))"
proof -
  from assms obtain created st1 user1 st2 newUserGroup st3 grp user2 where
    c: "User_createUser env st login password email (case firstName of None \<Rightarrow> [] | Some f \<Rightarrow> f)
       lastName (admin \<and> (case getCurrentUser env of None \<Rightarrow> False | Some cu \<Rightarrow> u_admin cu))
       (getCurrentUser env) = Inr (created, st1)"
    and id1: "u_id user1 = u_id created" and us: "users st2 = users st1"
    and gs: "groups st2 = groups st1"
    and g: "(case Group_findOne_name st2 ''New Users'' of
        Some g \<Rightarrow> (Inr g, st2)
      | None \<Rightarrow> createGroup env st2 ''New Users'' (User_findOne_admin st2) False) =
       (Inr newUserGroup, st3)"
    and a: "Group_addUser st3 newUserGroup user1 READ = ((grp, user2), st')"
    and r: "r = UserDoc user2"
    by (rule createUser_InrE)
  have same: "Group_findOne_name st2 n = Group_findOne_name st1 n" for n
    by (simp add: Group_findOne_name_def gs)
  have admins: "User_findOne_admin st2 = User_findOne_admin st1"
    by (simp add: User_findOne_admin_def us)
  have inside: "newUserGroup \<in> set (groups st3) \<and> g_name newUserGroup = ''New Users''"
    using g Group_findOne_name_Some [of st2 "''New Users''"]
    by (auto simp: createGroup_def Let_def split: option.splits)
  note props = Group_addUser_props [OF a conjunct1 [OF inside]]
  have len: "length (groups st') = length (groups st3)"
    using a by (rule Group_addUser_length)
  have gid: "g_id grp = g_id newUserGroup"
    using a by (auto simp: Group_addUser_def Let_def)
  have fresh: "length (groups st') = Suc (length (groups st1)) \<and> \<not> g_public grp \<and>
        (\<exists>creator \<in> set (users st1). u_admin creator \<and> g_creatorId grp = u_id creator \<and>
           (\<forall>a \<in> set (users st1). u_admin a \<longrightarrow> u_created creator \<le> u_created a))"
    if none: "Group_findOne_name st1 ''New Users'' = None"
  proof -
    from g none same obtain creator where
      cr: "User_findOne_admin st1 = Some creator"
      and ng: "g_public newUserGroup = False" "g_creatorId newUserGroup = u_id creator"
      and s3: "length (groups st3) = Suc (length (groups st1))"
      by (auto simp: createGroup_def Let_def admins gs split: option.splits)
    from User_findOne_admin_Some [OF cr] ng s3 props len show ?thesis by auto
  qed
  have old: "g_id grp = g_id g0 \<and> length (groups st') = length (groups st1)"
    if "Group_findOne_name st1 ''New Users'' = Some g0" for g0
    using that g same gid len gs by auto
  from c r id1 props inside fresh old show ?thesis
    by (intro exI [of _ user2] exI [of _ created] exI [of _ st1] exI [of _ grp]) auto
qed

theorem createUser_new_users_group_witness:
  "createUser example_env example_store ''carol'' ''carol@x.org'' (Some ''Carol'') ''C''
     ''carolpw'' False =
     (Inr (UserDoc
        \<lparr>u_id = ObjectId ''carol'', u_login = ''carol'', u_email = ''carol@x.org'',
         u_firstName = ''Carol'', u_lastName = ''C'', u_salt = Some ''h:carolpw'',
         u_admin = False, u_status = Some ''enabled'', u_otp = None,
         u_groups = Some [ObjectId ''g''], u_created = 30, u_authToken = None, u_emailVerified = False\<rparr>),
      example_store
        \<lparr>users := [alice, bob,
           \<lparr>u_id = ObjectId ''carol'', u_login = ''carol'', u_email = ''carol@x.org'',
            u_firstName = ''Carol'', u_lastName = ''C'', u_salt = Some ''h:carolpw'',
            u_admin = False, u_status = Some ''enabled'', u_otp = None,
            u_groups = Some [ObjectId ''g''], u_created = 30, u_authToken = None, u_emailVerified = False\<rparr>],
         groups := [\<lparr>g_id = ObjectId ''g'', g_name = ''New Users'', g_public = False,
                     g_creatorId = ObjectId ''a1'',
                     g_access = [(ObjectId ''a1'', ADMIN), (ObjectId ''carol'', READ)]\<rparr>]\<rparr>)"
  (is "?run = (Inr ?r, ?st)")
proof -
  have run: "?run = (Inr ?r, ?st)"
    by code_simp
  from createUser_new_users_group [OF run] run show ?thesis
    by simp
qed

section \<open>Properties of updateUser\<close>




section \<open>Properties of the one-time password handlers\<close>

text \<open>
  C9. For a logged-in caller: \<open>initializeOtp\<close> raises a RestException when OTP is
  enabled. \<open>finalizeOtp\<close> raises a RestException, and saves nothing, when the header
  \<open>Girder-OTP\<close> is absent, when the user has no OTP configuration, or when OTP is
  enabled; past these checks it hands the user with \<open>enabled\<close> set to the verifier,
  raises the verifier's exception without saving, and saves that user when the
  verification succeeded; whenever it changed the store, the verification had succeeded
  and the change is that save. \<open>removeOtp\<close> raises a RestException when OTP is not
  enabled and otherwise saves the user without the OTP configuration.
\<close>

theorem otp_lifecycle:
  assumes "getCurrentUser env = Some caller"
  shows "(hasOtpEnabled user \<longrightarrow>
            initializeOtp env st user =
              (Inl (RestException ''The user has already enabled one-time passwords.''
                      (IntCode 400)), st)) \<and>
         (headers env ''Girder-OTP'' = None \<or> u_otp user = None \<or> hasOtpEnabled user \<longrightarrow>
            (\<exists>m. finalizeOtp env st user = (Inl (RestException m (IntCode 400)), st))) \<and>
         (\<forall>t c. headers env ''Girder-OTP'' = Some t \<and> t \<noteq> [] \<and> u_otp user = Some c \<and>
                \<not> enabled c \<longrightarrow>
            finalizeOtp env st user =
              (case User_verifyOtp env (user\<lparr>u_otp := Some (c\<lparr>enabled := True\<rparr>)\<rparr>) t of
                 Some e \<Rightarrow> (Inl e, st)
               | None \<Rightarrow>
                   (case User_save env st (user\<lparr>u_otp := Some (c\<lparr>enabled := True\<rparr>)\<rparr>) of
                      (Inl e, st1) \<Rightarrow> (Inl e, st1)
                    | (Inr doc, st1) \<Rightarrow> (Inr NoBody, st1)))) \<and>
         (snd (finalizeOtp env st user) \<noteq> st \<longrightarrow>
            (\<exists>t c. headers env ''Girder-OTP'' = Some t \<and> u_otp user = Some c \<and>
               User_verifyOtp env (user\<lparr>u_otp := Some (c\<lparr>enabled := True\<rparr>)\<rparr>) t = None \<and>
               snd (finalizeOtp env st user) =
                 snd (User_save env st (user\<lparr>u_otp := Some (c\<lparr>enabled := True\<rparr>)\<rparr>)))) \<and>
         (\<not> hasOtpEnabled user \<longrightarrow>
            removeOtp env st user =
              (Inl (RestException ''The user has not enabled one-time passwords.''
                      (IntCode 400)), st)) \<and>
         (hasOtpEnabled user \<longrightarrow>
            removeOtp env st user =
              (case User_save env st (user\<lparr>u_otp := None\<rparr>) of
                 (Inl e, st1) \<Rightarrow> (Inl e, st1)
               | (Inr doc, st1) \<Rightarrow> (Inr NoBody, st1)))"
proof -
  have i: "hasOtpEnabled user \<longrightarrow>
            initializeOtp env st user =
              (Inl (RestException ''The user has already enabled one-time passwords.''
                      (IntCode 400)), st)"
    using assms by (simp add: initializeOtp_def access_user_def)
  have f1: "headers env ''Girder-OTP'' = None \<or> u_otp user = None \<or> hasOtpEnabled user \<longrightarrow>
            (\<exists>m. finalizeOtp env st user = (Inl (RestException m (IntCode 400)), st))"
    using assms by (auto simp: finalizeOtp_def access_user_def split: option.splits)
  have f2: "\<forall>t c. headers env ''Girder-OTP'' = Some t \<and> t \<noteq> [] \<and> u_otp user = Some c \<and>
                \<not> enabled c \<longrightarrow>
            finalizeOtp env st user =
              (case User_verifyOtp env (user\<lparr>u_otp := Some (c\<lparr>enabled := True\<rparr>)\<rparr>) t of
                 Some e \<Rightarrow> (Inl e, st)
               | None \<Rightarrow>
                   (case User_save env st (user\<lparr>u_otp := Some (c\<lparr>enabled := True\<rparr>)\<rparr>) of
                      (Inl e, st1) \<Rightarrow> (Inl e, st1)
                    | (Inr doc, st1) \<Rightarrow> (Inr NoBody, st1)))"
    using assms by (simp add: finalizeOtp_def access_user_def hasOtpEnabled_def Let_def)
  have f3: "snd (finalizeOtp env st user) \<noteq> st \<longrightarrow>
            (\<exists>t c. headers env ''Girder-OTP'' = Some t \<and> u_otp user = Some c \<and>
               User_verifyOtp env (user\<lparr>u_otp := Some (c\<lparr>enabled := True\<rparr>)\<rparr>) t = None \<and>
               snd (finalizeOtp env st user) =
                 snd (User_save env st (user\<lparr>u_otp := Some (c\<lparr>enabled := True\<rparr>)\<rparr>)))"
    using assms
    by (auto simp: finalizeOtp_def access_user_def Let_def
             split: option.splits if_splits prod.splits sum.splits)
  have r1: "\<not> hasOtpEnabled user \<longrightarrow>
            removeOtp env st user =
              (Inl (RestException ''The user has not enabled one-time passwords.''
                      (IntCode 400)), st)"
    using assms by (simp add: removeOtp_def access_user_def)
  have r2: "hasOtpEnabled user \<longrightarrow>
            removeOtp env st user =
              (case User_save env st (user\<lparr>u_otp := None\<rparr>) of
                 (Inl e, st1) \<Rightarrow> (Inl e, st1)
               | (Inr doc, st1) \<Rightarrow> (Inr NoBody, st1))"
    using assms
    by (auto simp: removeOtp_def access_user_def hasOtpEnabled_def split: option.splits)
  from i f1 f2 f3 r1 r2 show ?thesis by blast
qed

theorem otp_lifecycle_witness:
  "finalizeOtp (otp_env ''123456'') example_store bob_otp =
     (Inr NoBody, example_store\<lparr>users := [alice, bob_on]\<rparr>) \<and>
   finalizeOtp (otp_env ''000000'') example_store bob_otp =
     (Inl (AccessException ''One-time password check failed.''), example_store) \<and>
   finalizeOtp example_env example_store bob_otp =
     (Inl (RestException ''The \"Girder-OTP\" header must be provided.'' (IntCode 400)),
      example_store) \<and>
   initializeOtp example_env example_store bob_on =
     (Inl (RestException ''The user has already enabled one-time passwords.'' (IntCode 400)),
      example_store) \<and>
   removeOtp example_env example_store bob =
     (Inl (RestException ''The user has not enabled one-time passwords.'' (IntCode 400)),
      example_store) \<and>
   removeOtp example_env example_store bob_on = (Inr NoBody, example_store)"
proof -
  have caller: "getCurrentUser example_env = Some bob"
    by (simp add: example_env_def)
  have on: "hasOtpEnabled bob_on" and off: "\<not> hasOtpEnabled bob"
    by (simp_all add: hasOtpEnabled_def bob_on_def bob_def)
  note facts = otp_lifecycle [OF caller, of _ example_store]
  have a: "initializeOtp example_env example_store bob_on =
     (Inl (RestException ''The user has already enabled one-time passwords.'' (IntCode 400)),
      example_store)"
    using facts [of bob_on] on by blast
  have b: "removeOtp example_env example_store bob =
     (Inl (RestException ''The user has not enabled one-time passwords.'' (IntCode 400)),
      example_store)"
    using facts [of bob] off by blast
  have c: "finalizeOtp (otp_env ''123456'') example_store bob_otp =
     (Inr NoBody, example_store\<lparr>users := [alice, bob_on]\<rparr>)"
    by code_simp
  have d: "finalizeOtp (otp_env ''000000'') example_store bob_otp =
     (Inl (AccessException ''One-time password check failed.''), example_store)"
    by code_simp
  have e: "finalizeOtp example_env example_store bob_otp =
     (Inl (RestException ''The \"Girder-OTP\" header must be provided.'' (IntCode 400)),
      example_store)"
    by code_simp
  have f: "removeOtp example_env example_store bob_on = (Inr NoBody, example_store)"
    by code_simp
  from a b c d e f show ?thesis by simp
qed

section \<open>Properties of getUserApplets\<close>









text \<open>The user of the path has no part in the answer.\<close>

lemma getUserApplets_any_path_user:
  "getUserApplets env aenv user role ids_only = getUserApplets env aenv user' role ids_only"
  by (simp add: getUserApplets_def user_truthy_def)

text \<open>
  C1. The handler puts the current user of the request in the place of the user that was
  loaded from the path before it reads the groups. Here the second user asks for the
  applets of the administrator, who is in the group \<open>g1\<close> of the first applet; the
  answer is the applet of the second user's own group \<open>g2\<close>.
\<close>

theorem getUserApplets_path_user_replaced:
  "u_groups alice = Some [ObjectId ''g1''] \<and>
   AppletModel_find plain_applet_env ''user'' (ObjectId ''g1'') = [applet_a] \<and>
   getCurrentUser example_env = Some bob \<and>
   u_groups bob = Some [ObjectId ''g2''] \<and>
   AppletModel_find plain_applet_env ''user'' (ObjectId ''g2'') = [applet_b] \<and>
   getUserApplets example_env plain_applet_env alice ''user'' True =
     (Inr (Applets [JStr ''B'']), []) \<and>
   getUserApplets (example_env\<lparr>getCurrentUser := None\<rparr>) plain_applet_env alice ''user'' True =
     (Inl AttributeError, [])"
  by code_simp

section \<open>How errors leave the handlers\<close>


























end
